theory Spec2Isabelle
  imports Main "HOL-Library.Word"
begin

section \<open>The non-blocking TCP client of client_rtos/src/main.c\<close>

text \<open>
  The file main.c holds three functions of interest: the start-up thread
  \<open>init_thread\<close>, the per-connection callback \<open>conn_callback_func\<close> and the
  library-wide callback \<open>esp_callback_func\<close>, together with the constant request
  buffer \<open>req_data\<close>. Everything else they touch belongs to the ESP-AT library, the
  station manager, the kernel or the C library, and is reached through calls only.
  The embedding keeps the three functions as they are written and records every such
  call, in program order, in a trace.
\<close>

subsection \<open>Library types\<close>

text \<open>
  The result enumeration \<open>espr_t\<close> is declared in esp/esp.h. main.c names two of
  its members, \<open>espOK\<close> and \<open>espERR\<close>; any other member is \<open>espOTHER k\<close>.
\<close>

datatype espr_t = espOK | espERR | espOTHER nat

text \<open>
  The event categories. main.c names eight of them in its two \<open>switch\<close>
  statements; any other category the library may deliver is \<open>ESP_EVT_OTHER k\<close> and
  reaches the \<open>default\<close> label.
\<close>

datatype esp_evt_type_t =
    ESP_EVT_CONN_ACTIVE
  | ESP_EVT_CONN_CLOSED
  | ESP_EVT_CONN_DATA_SENT
  | ESP_EVT_CONN_DATA_RECV
  | ESP_EVT_AT_VERSION_NOT_SUPPORTED
  | ESP_EVT_INIT_FINISH
  | ESP_EVT_RESET_FINISH
  | ESP_EVT_RESET
  | ESP_EVT_OTHER nat

datatype esp_conn_type_t = ESP_CONN_TYPE_TCP | ESP_CONN_TYPE_OTHER nat

type_synonym uint8_t = "8 word"
type_synonym size_t = "32 word"

text \<open>Connection handles and packet buffers are opaque references.\<close>

type_synonym esp_conn_p = nat
type_synonym esp_pbuf_p = nat

text \<open>
  An event is seen by main.c through four accessor functions only. The record has one
  field for each, named as the accessor, holding what the accessor returns for this
  event. \<open>esp_conn_get_from_evt\<close> returns a handle or \<open>NULL\<close>, which is \<open>None\<close>; the
  result of \<open>esp_evt_conn_closed_is_forced\<close> is used as a condition only.
\<close>

record esp_evt_t =
  esp_evt_get_type :: esp_evt_type_t
  esp_conn_get_from_evt :: "esp_conn_p option"
  esp_evt_conn_closed_is_forced :: bool
  esp_evt_conn_data_recv_get_buff :: esp_pbuf_p

text \<open>
  A firmware version. The callback reads the three members through a cast to
  \<open>int\<close>; the record holds these values.
\<close>

record esp_sw_version_t =
  major :: int
  minor :: int
  patch :: int

text \<open>The two callbacks, as values passed to the library.\<close>

datatype esp_evt_fn = FN_esp_callback_func | FN_conn_callback_func

subsection \<open>Calls out of main.c\<close>

text \<open>
  One constructor for each external function that the three functions call, with the
  arguments of the call. A \<open>NULL\<close> pointer argument is \<open>None\<close>. The data argument of
  \<open>esp_conn_send\<close> is the content of the buffer that the pointer designates at the
  time of the call. \<open>Printf\<close> carries the format string and the integer arguments.
\<close>

datatype action =
    Printf string "int list"
  | Esp_init esp_evt_fn nat
  | Connect_to_preferred_access_point nat
  | Esp_conn_start "nat option" esp_conn_type_t string nat "nat option" esp_evt_fn nat
  | OsThreadTerminate
  | Esp_conn_send esp_conn_p "uint8_t list" size_t "nat option" nat
  | Esp_conn_close esp_conn_p nat
  | Esp_conn_recved esp_conn_p esp_pbuf_p
  | Esp_pbuf_length esp_pbuf_p nat
  | Esp_get_min_at_fw_version
  | Esp_get_current_at_fw_version

subsection \<open>State\<close>

text \<open>
  The only object with static storage that main.c defines is \<open>req_data\<close>. The state
  holds its current content and the trace of calls made so far.
\<close>

record sys =
  req_data :: "uint8_t list"
  trace :: "action list"

definition call :: "action \<Rightarrow> sys \<Rightarrow> sys" where
  "call a s = s\<lparr>trace := trace s @ [a]\<rparr>"

definition printf :: "string \<Rightarrow> int list \<Rightarrow> sys \<Rightarrow> sys" where
  "printf fmt args s = call (Printf fmt args) s"

definition crlf :: string where
  "crlf = [CHR 0x0D, CHR 0x0A]"

subsection \<open>The request buffer\<close>

text \<open>
  \<^verbatim>\<open>static const uint8_t req_data[] = "" "GET / HTTP/1.1\r\n" "Host: example.com\r\n"
       "Connection: close\r\n" "\r\n";\<close>
  The array has one element for each character of the concatenated literal and one
  for its terminating NUL.
\<close>

definition req_text :: string where
  "req_text = '''' @ ''GET / HTTP/1.1'' @ crlf @ ''Host: example.com'' @ crlf
     @ ''Connection: close'' @ crlf @ crlf"

definition req_data_initializer :: "uint8_t list" where
  "req_data_initializer = map (\<lambda>c. of_nat (of_char c)) req_text @ [0]"

definition sizeof_req_data :: size_t where
  "sizeof_req_data = of_nat (length req_data_initializer)"

definition init_sys :: sys where
  "init_sys = \<lparr>req_data = req_data_initializer, trace = []\<rparr>"

subsection \<open>The connection callback\<close>

text \<open>
  What the library answers during one run of the callback: the result of
  \<open>esp_conn_send\<close> and the result of \<open>esp_pbuf_length(pbuf, 1)\<close>, each used only if
  the call is made.
\<close>

record conn_env =
  esp_conn_send_res :: espr_t
  esp_pbuf_length_res :: size_t

definition conn_callback_func :: "conn_env \<Rightarrow> esp_evt_t \<Rightarrow> sys \<Rightarrow> espr_t \<times> sys" where
  "conn_callback_func env evt s =
    (case esp_conn_get_from_evt evt of
       None \<Rightarrow> (espERR, s)
     | Some conn \<Rightarrow>
        (espOK,
         (case esp_evt_get_type evt of
            ESP_EVT_CONN_ACTIVE \<Rightarrow>
              (let s1 = printf (''Connection active!'' @ crlf) [] s;
                   s2 = call (Esp_conn_send conn (req_data s1) (sizeof_req_data - 1) None 0) s1;
                   res = esp_conn_send_res env
               in if res = espOK
                  then printf (''Sending request data to server...'' @ crlf) [] s2
                  else (let s3 = printf (''Cannot send request data to server. Closing connection manually...'' @ crlf) [] s2
                        in call (Esp_conn_close conn 0) s3))
          | ESP_EVT_CONN_CLOSED \<Rightarrow>
              (if esp_evt_conn_closed_is_forced evt
               then printf (''Connection closed by client!'' @ crlf) [] s
               else printf (''Connection closed by remote side!'' @ crlf) [] s)
          | ESP_EVT_CONN_DATA_SENT \<Rightarrow>
              printf (''Data sent successfully...waiting to receive data from remote side...'' @ crlf) [] s
          | ESP_EVT_CONN_DATA_RECV \<Rightarrow>
              (let pbuf = esp_evt_conn_data_recv_get_buff evt;
                   s1 = call (Esp_conn_recved conn pbuf) s;
                   s2 = call (Esp_pbuf_length pbuf 1) s1
               in printf (''Received %d bytes on connection..'' @ crlf)
                    [sint (esp_pbuf_length_res env)] s2)
          | _ \<Rightarrow> s)))"

text \<open>A sequence of events delivered to the callback, each with the library's answers.\<close>

fun run_conn :: "(conn_env \<times> esp_evt_t) list \<Rightarrow> sys \<Rightarrow> sys" where
  "run_conn [] s = s"
| "run_conn ((env, evt) # rest) s = run_conn rest (snd (conn_callback_func env evt s))"

subsection \<open>The library-wide callback\<close>

text \<open>What the two version queries write to their out-parameters.\<close>

record esp_env =
  min_at_fw_version :: esp_sw_version_t
  current_at_fw_version :: esp_sw_version_t

definition esp_callback_func :: "esp_env \<Rightarrow> esp_evt_t \<Rightarrow> sys \<Rightarrow> espr_t \<times> sys" where
  "esp_callback_func env evt s =
    (espOK,
     (case esp_evt_get_type evt of
        ESP_EVT_AT_VERSION_NOT_SUPPORTED \<Rightarrow>
          (let s1 = call Esp_get_min_at_fw_version s;
               v_min = min_at_fw_version env;
               s2 = call Esp_get_current_at_fw_version s1;
               v_curr = current_at_fw_version env;
               s3 = printf (''Current ESP8266 AT version is not supported by library!'' @ crlf) [] s2;
               s4 = printf (''Minimum required AT version is: %d.%d.%d'' @ crlf)
                      [major v_min, minor v_min, patch v_min] s3
           in printf (''Current AT version is: %d.%d.%d'' @ crlf)
                [major v_curr, minor v_curr, patch v_curr] s4)
      | ESP_EVT_INIT_FINISH \<Rightarrow> printf (''Library initialized!'' @ crlf) [] s
      | ESP_EVT_RESET_FINISH \<Rightarrow> printf (''Device reset sequence finished!'' @ crlf) [] s
      | ESP_EVT_RESET \<Rightarrow> printf (''Device reset detected!'' @ crlf) [] s
      | _ \<Rightarrow> s))"

subsection \<open>The start-up thread\<close>

text \<open>
  The library's answers during start-up. \<open>connect_to_preferred_access_point\<close> tries
  without limit, so the call may not come back: \<open>ap_returns\<close> says whether it does.
  Its result is not used. \<open>osThreadTerminate\<close> ends the thread.
\<close>

record init_env =
  esp_init_res :: espr_t
  ap_returns :: bool
  esp_conn_start_res :: espr_t

definition init_thread :: "init_env \<Rightarrow> sys \<Rightarrow> sys" where
  "init_thread env s =
    (let s1 = call (Esp_init FN_esp_callback_func 1) s;
         s2 = (if esp_init_res env \<noteq> espOK
               then printf (''Cannot initialize ESP-AT Library'' @ crlf) [] s1
               else s1);
         s3 = call (Connect_to_preferred_access_point 1) s2
     in if \<not> ap_returns env then s3
        else
          (let s4 = call (Esp_conn_start None ESP_CONN_TYPE_TCP ''example.com'' 80 None
                            FN_conn_callback_func 0) s3;
               res = esp_conn_start_res env;
               s5 = (if res = espOK
                     then printf (''Connection to example.com started...'' @ crlf) [] s4
                     else printf (''Cannot start connection to example.com!'' @ crlf) [] s4)
           in call OsThreadTerminate s5))"

subsection \<open>All operations of main.c\<close>

text \<open>
  After start-up the library calls the two callbacks in any order and any number of
  times. One operation is one run of one of the three functions.
\<close>

datatype core_op =
    Op_init_thread init_env
  | Op_conn_callback conn_env esp_evt_t
  | Op_esp_callback esp_env esp_evt_t

fun core_step :: "core_op \<Rightarrow> sys \<Rightarrow> sys" where
  "core_step (Op_init_thread env) s = init_thread env s"
| "core_step (Op_conn_callback env evt) s = snd (conn_callback_func env evt s)"
| "core_step (Op_esp_callback env evt) s = snd (esp_callback_func env evt s)"

fun core_run :: "core_op list \<Rightarrow> sys \<Rightarrow> sys" where
  "core_run [] s = s"
| "core_run (x # xs) s = core_run xs (core_step x s)"

subsection \<open>Reading a trace\<close>

text \<open>The requests that make the modem act on the network or on the radio link.\<close>

fun is_network_request :: "action \<Rightarrow> bool" where
  "is_network_request (Esp_init _ _) = True"
| "is_network_request (Connect_to_preferred_access_point _) = True"
| "is_network_request (Esp_conn_start _ _ _ _ _ _ _) = True"
| "is_network_request (Esp_conn_send _ _ _ _ _) = True"
| "is_network_request (Esp_conn_close _ _) = True"
| "is_network_request (Esp_conn_recved _ _) = True"
| "is_network_request _ = False"

text \<open>The send requests and the close requests, on any handle.\<close>

fun is_send :: "action \<Rightarrow> bool" where
  "is_send (Esp_conn_send _ _ _ _ _) = True"
| "is_send _ = False"

fun is_close :: "action \<Rightarrow> bool" where
  "is_close (Esp_conn_close _ _) = True"
| "is_close _ = False"

text \<open>The send, close and acknowledge requests on one handle.\<close>

fun is_send_on :: "esp_conn_p \<Rightarrow> action \<Rightarrow> bool" where
  "is_send_on c (Esp_conn_send c' _ _ _ _) = (c' = c)"
| "is_send_on c _ = False"

fun is_close_on :: "esp_conn_p \<Rightarrow> action \<Rightarrow> bool" where
  "is_close_on c (Esp_conn_close c' _) = (c' = c)"
| "is_close_on c _ = False"

fun is_recved_on :: "esp_conn_p \<Rightarrow> action \<Rightarrow> bool" where
  "is_recved_on c (Esp_conn_recved c' _) = (c' = c)"
| "is_recved_on c _ = False"

definition is_operation_on :: "esp_conn_p \<Rightarrow> action \<Rightarrow> bool" where
  "is_operation_on c a = (is_send_on c a \<or> is_close_on c a \<or> is_recved_on c a)"

text \<open>The acknowledged buffers of a trace, each with its handle, in order.\<close>

fun ack_of :: "action \<Rightarrow> (esp_conn_p \<times> esp_pbuf_p) list" where
  "ack_of (Esp_conn_recved c p) = [(c, p)]"
| "ack_of _ = []"

definition acks :: "action list \<Rightarrow> (esp_conn_p \<times> esp_pbuf_p) list" where
  "acks tr = concat (map ack_of tr)"

text \<open>The byte contents handed to the send requests of a trace, in order.\<close>

fun payload_of :: "action \<Rightarrow> uint8_t list list" where
  "payload_of (Esp_conn_send _ d _ _ _) = [d]"
| "payload_of _ = []"

definition sent_payloads :: "action list \<Rightarrow> uint8_t list list" where
  "sent_payloads tr = concat (map payload_of tr)"

subsection \<open>Reading an event sequence\<close>

text \<open>
  The buffers that a sequence of events delivers together with a connection handle,
  in order.
\<close>

fun recv_of :: "conn_env \<times> esp_evt_t \<Rightarrow> (esp_conn_p \<times> esp_pbuf_p) list" where
  "recv_of (env, evt) =
    (case esp_conn_get_from_evt evt of
       None \<Rightarrow> []
     | Some c \<Rightarrow>
         if esp_evt_get_type evt = ESP_EVT_CONN_DATA_RECV
         then [(c, esp_evt_conn_data_recv_get_buff evt)] else [])"

definition received :: "(conn_env \<times> esp_evt_t) list \<Rightarrow> (esp_conn_p \<times> esp_pbuf_p) list" where
  "received steps = concat (map recv_of steps)"

text \<open>A connection-active event for the handle \<open>c\<close>.\<close>

fun is_active_on :: "esp_conn_p \<Rightarrow> conn_env \<times> esp_evt_t \<Rightarrow> bool" where
  "is_active_on c (env, evt) =
    (esp_evt_get_type evt = ESP_EVT_CONN_ACTIVE \<and> esp_conn_get_from_evt evt = Some c)"

text \<open>A connection-active or a data-received event for the handle \<open>c\<close>.\<close>

fun is_active_or_recv_on :: "esp_conn_p \<Rightarrow> conn_env \<times> esp_evt_t \<Rightarrow> bool" where
  "is_active_or_recv_on c (env, evt) =
    (esp_conn_get_from_evt evt = Some c
     \<and> (esp_evt_get_type evt = ESP_EVT_CONN_ACTIVE
        \<or> esp_evt_get_type evt = ESP_EVT_CONN_DATA_RECV))"

section \<open>Properties\<close>

subsection \<open>The request buffer\<close>

lemma length_req_text: "length req_text = 56"
  by (simp add: req_text_def crlf_def)

lemma length_req_data_initializer: "length req_data_initializer = 57"
  by (simp add: req_data_initializer_def length_req_text)

lemma send_length: "sizeof_req_data - 1 = 56"
  by (simp add: sizeof_req_data_def length_req_data_initializer)

subsection \<open>One run of the connection callback, by event category\<close>

lemmas conn_cb_defs = conn_callback_func_def printf_def call_def Let_def

lemma conn_cb_no_handle:
  "esp_conn_get_from_evt evt = None \<Longrightarrow> conn_callback_func env evt s = (espERR, s)"
  by (simp add: conn_cb_defs)

lemma conn_cb_active:
  "esp_conn_get_from_evt evt = Some conn \<Longrightarrow> esp_evt_get_type evt = ESP_EVT_CONN_ACTIVE \<Longrightarrow>
   conn_callback_func env evt s =
     (espOK, s\<lparr>trace := trace s @
        [Printf (''Connection active!'' @ crlf) [],
         Esp_conn_send conn (req_data s) (sizeof_req_data - 1) None 0] @
        (if esp_conn_send_res env = espOK
         then [Printf (''Sending request data to server...'' @ crlf) []]
         else [Printf (''Cannot send request data to server. Closing connection manually...'' @ crlf) [],
               Esp_conn_close conn 0])\<rparr>)"
  by (simp add: conn_cb_defs)

lemma conn_cb_closed:
  "esp_conn_get_from_evt evt = Some conn \<Longrightarrow> esp_evt_get_type evt = ESP_EVT_CONN_CLOSED \<Longrightarrow>
   conn_callback_func env evt s =
     (espOK, s\<lparr>trace := trace s @
        [Printf ((if esp_evt_conn_closed_is_forced evt
                  then ''Connection closed by client!''
                  else ''Connection closed by remote side!'') @ crlf) []]\<rparr>)"
  by (simp add: conn_cb_defs)

lemma conn_cb_data_sent:
  "esp_conn_get_from_evt evt = Some conn \<Longrightarrow> esp_evt_get_type evt = ESP_EVT_CONN_DATA_SENT \<Longrightarrow>
   conn_callback_func env evt s =
     (espOK, s\<lparr>trace := trace s @
        [Printf (''Data sent successfully...waiting to receive data from remote side...'' @ crlf) []]\<rparr>)"
  by (simp add: conn_cb_defs)

lemma conn_cb_data_recv:
  "esp_conn_get_from_evt evt = Some conn \<Longrightarrow> esp_evt_get_type evt = ESP_EVT_CONN_DATA_RECV \<Longrightarrow>
   conn_callback_func env evt s =
     (espOK, s\<lparr>trace := trace s @
        [Esp_conn_recved conn (esp_evt_conn_data_recv_get_buff evt),
         Esp_pbuf_length (esp_evt_conn_data_recv_get_buff evt) 1,
         Printf (''Received %d bytes on connection..'' @ crlf) [sint (esp_pbuf_length_res env)]]\<rparr>)"
  by (simp add: conn_cb_defs)

lemma conn_cb_default:
  "esp_conn_get_from_evt evt = Some conn \<Longrightarrow>
   esp_evt_get_type evt \<notin> {ESP_EVT_CONN_ACTIVE, ESP_EVT_CONN_CLOSED,
                            ESP_EVT_CONN_DATA_SENT, ESP_EVT_CONN_DATA_RECV} \<Longrightarrow>
   conn_callback_func env evt s = (espOK, s)"
  by (cases "esp_evt_get_type evt") (simp_all add: conn_cb_defs)

lemma conn_cb_req_data: "req_data (snd (conn_callback_func env evt s)) = req_data s"
  by (cases "esp_conn_get_from_evt evt"; cases "esp_evt_get_type evt")
     (simp_all add: conn_cb_defs)

lemma conn_cb_acks:
  "acks (trace (snd (conn_callback_func env evt s))) = acks (trace s) @ recv_of (env, evt)"
  by (cases "esp_conn_get_from_evt evt"; cases "esp_evt_get_type evt")
     (simp_all add: conn_cb_defs acks_def)

lemma conn_cb_quiet:
  "\<not> is_active_on c (env, evt) \<Longrightarrow>
   \<exists>T. trace (snd (conn_callback_func env evt s)) = trace s @ T
      \<and> filter (is_send_on c) T = [] \<and> filter (is_close_on c) T = []"
  by (cases "esp_conn_get_from_evt evt"; cases "esp_evt_get_type evt")
     (auto simp add: conn_cb_defs)

subsection \<open>Sequences of events\<close>

lemma run_conn_append: "run_conn (xs @ ys) s = run_conn ys (run_conn xs s)"
  by (induction xs s rule: run_conn.induct) simp_all

lemma run_conn_req_data: "req_data (run_conn steps s) = req_data s"
  by (induction steps s rule: run_conn.induct) (simp_all add: conn_cb_req_data)

lemma run_conn_acks: "acks (trace (run_conn steps s)) = acks (trace s) @ received steps"
  by (induction steps s rule: run_conn.induct) (simp_all add: conn_cb_acks received_def)

lemma run_conn_quiet:
  "filter (is_active_on c) steps = [] \<Longrightarrow>
   \<exists>T. trace (run_conn steps s) = trace s @ T
      \<and> filter (is_send_on c) T = [] \<and> filter (is_close_on c) T = []"
proof (induction steps s rule: run_conn.induct)
  case (1 s)
  then show ?case by simp
next
  case (2 env evt rest s)
  let ?s' = "snd (conn_callback_func env evt s)"
  from "2.prems" have quiet: "\<not> is_active_on c (env, evt)" and rest: "filter (is_active_on c) rest = []"
    by (auto split: if_splits)
  from conn_cb_quiet [OF quiet] obtain T1 where
    T1: "trace ?s' = trace s @ T1" "filter (is_send_on c) T1 = []" "filter (is_close_on c) T1 = []"
    by blast
  from "2.IH" [OF rest] obtain T2 where
    T2: "trace (run_conn rest ?s') = trace ?s' @ T2" "filter (is_send_on c) T2 = []"
        "filter (is_close_on c) T2 = []"
    by blast
  have "trace (run_conn ((env, evt) # rest) s) = trace s @ (T1 @ T2)"
    using T1(1) T2(1) by simp
  moreover have "filter (is_send_on c) (T1 @ T2) = []" using T1(2) T2(2) by simp
  moreover have "filter (is_close_on c) (T1 @ T2) = []" using T1(3) T2(3) by simp
  ultimately show ?case by blast
qed

lemma conn_cb_idle:
  "\<not> is_active_or_recv_on c (env, evt) \<Longrightarrow>
   \<exists>T. trace (snd (conn_callback_func env evt s)) = trace s @ T
      \<and> filter (is_operation_on c) T = []"
  by (cases "esp_conn_get_from_evt evt"; cases "esp_evt_get_type evt")
     (auto simp add: conn_cb_defs is_operation_on_def)

lemma run_conn_idle:
  "filter (is_active_or_recv_on c) steps = [] \<Longrightarrow>
   \<exists>T. trace (run_conn steps s) = trace s @ T \<and> filter (is_operation_on c) T = []"
proof (induction steps s rule: run_conn.induct)
  case (1 s)
  then show ?case by simp
next
  case (2 env evt rest s)
  let ?s' = "snd (conn_callback_func env evt s)"
  from "2.prems" have idle: "\<not> is_active_or_recv_on c (env, evt)"
    and rest: "filter (is_active_or_recv_on c) rest = []"
    by (auto split: if_splits)
  from conn_cb_idle [OF idle] obtain T1 where
    T1: "trace ?s' = trace s @ T1" "filter (is_operation_on c) T1 = []"
    by blast
  from "2.IH" [OF rest] obtain T2 where
    T2: "trace (run_conn rest ?s') = trace ?s' @ T2" "filter (is_operation_on c) T2 = []"
    by blast
  have "trace (run_conn ((env, evt) # rest) s) = trace s @ (T1 @ T2)"
    using T1(1) T2(1) by simp
  moreover have "filter (is_operation_on c) (T1 @ T2) = []" using T1(2) T2(2) by simp
  ultimately show ?case by blast
qed

lemma req_data_initializer_bytes:
  "req_data_initializer =
     map (\<lambda>c. of_nat (of_char c))
       (''GET / HTTP/1.1'' @ [CHR 0x0D, CHR 0x0A]
        @ ''Host: example.com'' @ [CHR 0x0D, CHR 0x0A]
        @ ''Connection: close'' @ [CHR 0x0D, CHR 0x0A]
        @ [CHR 0x0D, CHR 0x0A]) @ [0]"
  by (simp add: req_data_initializer_def req_text_def crlf_def)

subsection \<open>The library-wide callback and the start-up thread\<close>

lemmas esp_cb_defs = esp_callback_func_def printf_def call_def Let_def

lemma esp_cb_version:
  "esp_evt_get_type evt = ESP_EVT_AT_VERSION_NOT_SUPPORTED \<Longrightarrow>
   esp_callback_func env evt s =
     (espOK, s\<lparr>trace := trace s @
        [Esp_get_min_at_fw_version,
         Esp_get_current_at_fw_version,
         Printf (''Current ESP8266 AT version is not supported by library!'' @ crlf) [],
         Printf (''Minimum required AT version is: %d.%d.%d'' @ crlf)
           [major (min_at_fw_version env), minor (min_at_fw_version env),
            patch (min_at_fw_version env)],
         Printf (''Current AT version is: %d.%d.%d'' @ crlf)
           [major (current_at_fw_version env), minor (current_at_fw_version env),
            patch (current_at_fw_version env)]]\<rparr>)"
  by (simp add: esp_cb_defs)

lemma esp_cb_default:
  "esp_evt_get_type evt \<notin> {ESP_EVT_AT_VERSION_NOT_SUPPORTED, ESP_EVT_INIT_FINISH,
                            ESP_EVT_RESET_FINISH, ESP_EVT_RESET} \<Longrightarrow>
   esp_callback_func env evt s = (espOK, s)"
  by (cases "esp_evt_get_type evt") (simp_all add: esp_cb_defs)

lemma esp_cb_req_data: "req_data (snd (esp_callback_func env evt s)) = req_data s"
  by (cases "esp_evt_get_type evt") (simp_all add: esp_cb_defs)

lemma esp_cb_payloads:
  "sent_payloads (trace (snd (esp_callback_func env evt s))) = sent_payloads (trace s)"
  by (cases "esp_evt_get_type evt") (simp_all add: esp_cb_defs sent_payloads_def)

lemmas init_defs = init_thread_def printf_def call_def Let_def

lemma init_thread_trace:
  "trace (init_thread env s) = trace s @
     [Esp_init FN_esp_callback_func 1] @
     (if esp_init_res env \<noteq> espOK
      then [Printf (''Cannot initialize ESP-AT Library'' @ crlf) []] else []) @
     [Connect_to_preferred_access_point 1] @
     (if ap_returns env
      then [Esp_conn_start None ESP_CONN_TYPE_TCP ''example.com'' 80 None FN_conn_callback_func 0,
            Printf ((if esp_conn_start_res env = espOK
                     then ''Connection to example.com started...''
                     else ''Cannot start connection to example.com!'') @ crlf) [],
            OsThreadTerminate]
      else [])"
  by (simp add: init_defs)

lemma init_thread_req_data: "req_data (init_thread env s) = req_data s"
  by (simp add: init_defs)

lemma init_thread_payloads:
  "sent_payloads (trace (init_thread env s)) = sent_payloads (trace s)"
  by (simp add: init_defs sent_payloads_def)

subsection \<open>Any interleaving of the three functions\<close>

lemma core_step_req_data: "req_data (core_step x s) = req_data s"
  by (cases x) (simp_all add: conn_cb_req_data esp_cb_req_data init_thread_req_data)

lemma conn_cb_payloads_rep:
  "\<exists>n. sent_payloads (trace (snd (conn_callback_func env evt s)))
        = sent_payloads (trace s) @ replicate n (req_data s)"
proof (cases "esp_conn_get_from_evt evt")
  case None
  then have "sent_payloads (trace (snd (conn_callback_func env evt s)))
        = sent_payloads (trace s) @ replicate 0 (req_data s)"
    by (simp add: conn_cb_no_handle)
  then show ?thesis by blast
next
  case (Some conn)
  show ?thesis
  proof (cases "esp_evt_get_type evt = ESP_EVT_CONN_ACTIVE")
    case True
    with Some have "sent_payloads (trace (snd (conn_callback_func env evt s)))
        = sent_payloads (trace s) @ replicate 1 (req_data s)"
      by (simp add: conn_cb_active sent_payloads_def)
    then show ?thesis by blast
  next
    case False
    with Some have "sent_payloads (trace (snd (conn_callback_func env evt s)))
        = sent_payloads (trace s) @ replicate 0 (req_data s)"
      by (cases "esp_evt_get_type evt") (simp_all add: conn_cb_defs sent_payloads_def)
    then show ?thesis by blast
  qed
qed

lemma core_step_payloads:
  "\<exists>n. sent_payloads (trace (core_step x s)) = sent_payloads (trace s) @ replicate n (req_data s)"
proof (cases x)
  case (Op_init_thread env)
  then have "sent_payloads (trace (core_step x s)) = sent_payloads (trace s) @ replicate 0 (req_data s)"
    by (simp add: init_thread_payloads)
  then show ?thesis by blast
next
  case (Op_conn_callback env evt)
  then show ?thesis using conn_cb_payloads_rep [of env evt s] by simp
next
  case (Op_esp_callback env evt)
  then have "sent_payloads (trace (core_step x s)) = sent_payloads (trace s) @ replicate 0 (req_data s)"
    by (simp add: esp_cb_payloads)
  then show ?thesis by blast
qed

lemma core_run_req_data: "req_data (core_run xs s) = req_data s"
  by (induction xs s rule: core_run.induct) (simp_all add: core_step_req_data)

lemma core_run_payloads:
  "\<exists>n. sent_payloads (trace (core_run xs s)) = sent_payloads (trace s) @ replicate n (req_data s)"
proof (induction xs s rule: core_run.induct)
  case (1 s)
  have "sent_payloads (trace (core_run [] s)) = sent_payloads (trace s) @ replicate 0 (req_data s)"
    by simp
  then show ?case by blast
next
  case (2 x xs s)
  from core_step_payloads obtain n where
    n: "sent_payloads (trace (core_step x s)) = sent_payloads (trace s) @ replicate n (req_data s)"
    by blast
  from "2.IH" obtain m where
    m: "sent_payloads (trace (core_run xs (core_step x s)))
        = sent_payloads (trace (core_step x s)) @ replicate m (req_data (core_step x s))"
    by blast
  have "sent_payloads (trace (core_run (x # xs) s))
        = sent_payloads (trace s) @ replicate (n + m) (req_data s)"
    using n m by (simp add: core_step_req_data replicate_add)
  then show ?case by blast
qed

section \<open>The claims\<close>

text \<open>
  C9. The connection callback returns \<open>espERR\<close>, and does nothing else, when no
  connection handle can be taken from the event; in every other case it returns
  \<open>espOK\<close>.
\<close>

theorem conn_callback_result:
  "(esp_conn_get_from_evt evt = None \<longrightarrow> conn_callback_func env evt s = (espERR, s))
   \<and> (esp_conn_get_from_evt evt \<noteq> None \<longrightarrow> fst (conn_callback_func env evt s) = espOK)"
  by (cases "esp_conn_get_from_evt evt") (simp_all add: conn_callback_func_def)

theorem conn_callback_result_witness:
  "esp_conn_get_from_evt
     \<lparr>esp_evt_get_type = ESP_EVT_CONN_DATA_SENT, esp_conn_get_from_evt = None,
      esp_evt_conn_closed_is_forced = False, esp_evt_conn_data_recv_get_buff = 0\<rparr> = None
   \<and> conn_callback_func \<lparr>esp_conn_send_res = espOK, esp_pbuf_length_res = 0\<rparr>
       \<lparr>esp_evt_get_type = ESP_EVT_CONN_DATA_SENT, esp_conn_get_from_evt = None,
        esp_evt_conn_closed_is_forced = False, esp_evt_conn_data_recv_get_buff = 0\<rparr>
       init_sys = (espERR, init_sys)
   \<and> esp_conn_get_from_evt
     \<lparr>esp_evt_get_type = ESP_EVT_CONN_DATA_SENT, esp_conn_get_from_evt = Some 3,
      esp_evt_conn_closed_is_forced = False, esp_evt_conn_data_recv_get_buff = 0\<rparr> \<noteq> None
   \<and> fst (conn_callback_func \<lparr>esp_conn_send_res = espOK, esp_pbuf_length_res = 0\<rparr>
       \<lparr>esp_evt_get_type = ESP_EVT_CONN_DATA_SENT, esp_conn_get_from_evt = Some 3,
        esp_evt_conn_closed_is_forced = False, esp_evt_conn_data_recv_get_buff = 0\<rparr>
       init_sys) = espOK"
  using conn_callback_result
     [of "\<lparr>esp_evt_get_type = ESP_EVT_CONN_DATA_SENT, esp_conn_get_from_evt = None,
          esp_evt_conn_closed_is_forced = False, esp_evt_conn_data_recv_get_buff = 0\<rparr>"
         "\<lparr>esp_conn_send_res = espOK, esp_pbuf_length_res = 0\<rparr>" init_sys]
    conn_callback_result
     [of "\<lparr>esp_evt_get_type = ESP_EVT_CONN_DATA_SENT, esp_conn_get_from_evt = Some 3,
          esp_evt_conn_closed_is_forced = False, esp_evt_conn_data_recv_get_buff = 0\<rparr>"
         "\<lparr>esp_conn_send_res = espOK, esp_pbuf_length_res = 0\<rparr>" init_sys]
  by simp

text \<open>
  C10. On a connection-active event the length given to the send request is
  \<open>sizeof(req_data) - 1\<close>: the 56 bytes of the request text, without the NUL that ends
  the array.
\<close>

theorem conn_active_send_length:
  assumes "esp_conn_get_from_evt evt = Some conn"
    and "esp_evt_get_type evt = ESP_EVT_CONN_ACTIVE"
  shows "filter (is_send_on conn) (trace (snd (conn_callback_func env evt s)))
           = filter (is_send_on conn) (trace s)
             @ [Esp_conn_send conn (req_data s) (sizeof_req_data - 1) None 0]
       \<and> unat (sizeof_req_data - 1) = length req_data_initializer - 1
       \<and> unat (sizeof_req_data - 1) = length req_text
       \<and> take (unat (sizeof_req_data - 1)) req_data_initializer
           = map (\<lambda>c. of_nat (of_char c)) req_text
       \<and> drop (unat (sizeof_req_data - 1)) req_data_initializer = [0]"
proof -
  have "filter (is_send_on conn) (trace (snd (conn_callback_func env evt s)))
           = filter (is_send_on conn) (trace s)
             @ [Esp_conn_send conn (req_data s) (sizeof_req_data - 1) None 0]"
    using assms by (simp add: conn_cb_active)
  moreover have "unat (sizeof_req_data - 1) = length req_data_initializer - 1"
    by (simp add: send_length length_req_data_initializer)
  moreover have n: "unat (sizeof_req_data - 1) = length req_text"
    by (simp add: send_length length_req_text)
  moreover have "take (unat (sizeof_req_data - 1)) req_data_initializer
           = map (\<lambda>c. of_nat (of_char c)) req_text"
    unfolding n by (simp add: req_data_initializer_def)
  moreover have "drop (unat (sizeof_req_data - 1)) req_data_initializer = [0]"
    unfolding n by (simp add: req_data_initializer_def)
  ultimately show ?thesis by blast
qed

theorem conn_active_send_length_witness:
  "esp_conn_get_from_evt
     \<lparr>esp_evt_get_type = ESP_EVT_CONN_ACTIVE, esp_conn_get_from_evt = Some 3,
      esp_evt_conn_closed_is_forced = False, esp_evt_conn_data_recv_get_buff = 0\<rparr> = Some 3
   \<and> esp_evt_get_type
     \<lparr>esp_evt_get_type = ESP_EVT_CONN_ACTIVE, esp_conn_get_from_evt = Some 3,
      esp_evt_conn_closed_is_forced = False, esp_evt_conn_data_recv_get_buff = 0\<rparr>
       = ESP_EVT_CONN_ACTIVE
   \<and> filter (is_send_on 3)
       (trace (snd (conn_callback_func \<lparr>esp_conn_send_res = espOK, esp_pbuf_length_res = 0\<rparr>
          \<lparr>esp_evt_get_type = ESP_EVT_CONN_ACTIVE, esp_conn_get_from_evt = Some 3,
           esp_evt_conn_closed_is_forced = False, esp_evt_conn_data_recv_get_buff = 0\<rparr>
          init_sys)))
       = [Esp_conn_send 3 req_data_initializer 56 None 0]"
  using conn_active_send_length
     [of "\<lparr>esp_evt_get_type = ESP_EVT_CONN_ACTIVE, esp_conn_get_from_evt = Some 3,
          esp_evt_conn_closed_is_forced = False, esp_evt_conn_data_recv_get_buff = 0\<rparr>"
         3 "\<lparr>esp_conn_send_res = espOK, esp_pbuf_length_res = 0\<rparr>" init_sys]
  by (simp add: init_sys_def send_length)

text \<open>
  C4. On an unsupported-AT-version event the library-wide callback asks for the
  minimum and the current firmware version, prints both, makes no network request,
  leaves the state as it is and returns \<open>espOK\<close>.
\<close>

theorem esp_callback_version_not_supported:
  assumes "esp_evt_get_type evt = ESP_EVT_AT_VERSION_NOT_SUPPORTED"
  shows "esp_callback_func env evt s =
     (espOK, s\<lparr>trace := trace s @
        [Esp_get_min_at_fw_version,
         Esp_get_current_at_fw_version,
         Printf (''Current ESP8266 AT version is not supported by library!'' @ crlf) [],
         Printf (''Minimum required AT version is: %d.%d.%d'' @ crlf)
           [major (min_at_fw_version env), minor (min_at_fw_version env),
            patch (min_at_fw_version env)],
         Printf (''Current AT version is: %d.%d.%d'' @ crlf)
           [major (current_at_fw_version env), minor (current_at_fw_version env),
            patch (current_at_fw_version env)]]\<rparr>)
     \<and> filter is_network_request (trace (snd (esp_callback_func env evt s)))
         = filter is_network_request (trace s)
     \<and> req_data (snd (esp_callback_func env evt s)) = req_data s"
  using assms by (simp add: esp_cb_version)

theorem esp_callback_version_not_supported_witness:
  "esp_evt_get_type
     \<lparr>esp_evt_get_type = ESP_EVT_AT_VERSION_NOT_SUPPORTED, esp_conn_get_from_evt = None,
      esp_evt_conn_closed_is_forced = False, esp_evt_conn_data_recv_get_buff = 0\<rparr>
     = ESP_EVT_AT_VERSION_NOT_SUPPORTED
   \<and> esp_callback_func
       \<lparr>min_at_fw_version = \<lparr>major = 2, minor = 0, patch = 0\<rparr>,
        current_at_fw_version = \<lparr>major = 1, minor = 5, patch = 0\<rparr>\<rparr>
       \<lparr>esp_evt_get_type = ESP_EVT_AT_VERSION_NOT_SUPPORTED, esp_conn_get_from_evt = None,
        esp_evt_conn_closed_is_forced = False, esp_evt_conn_data_recv_get_buff = 0\<rparr>
       init_sys
     = (espOK, init_sys\<lparr>trace :=
        [Esp_get_min_at_fw_version,
         Esp_get_current_at_fw_version,
         Printf (''Current ESP8266 AT version is not supported by library!'' @ crlf) [],
         Printf (''Minimum required AT version is: %d.%d.%d'' @ crlf) [2, 0, 0],
         Printf (''Current AT version is: %d.%d.%d'' @ crlf) [1, 5, 0]]\<rparr>)"
  using esp_callback_version_not_supported
     [of "\<lparr>esp_evt_get_type = ESP_EVT_AT_VERSION_NOT_SUPPORTED, esp_conn_get_from_evt = None,
          esp_evt_conn_closed_is_forced = False, esp_evt_conn_data_recv_get_buff = 0\<rparr>"
         "\<lparr>min_at_fw_version = \<lparr>major = 2, minor = 0, patch = 0\<rparr>,
          current_at_fw_version = \<lparr>major = 1, minor = 5, patch = 0\<rparr>\<rparr>" init_sys]
  by (simp add: init_sys_def)

text \<open>
  C5. The scenario connection-active with an accepted send, data-sent, data-received
  with a buffer of 37 bytes, connection-closed by the remote side, all on one handle:
  the callback sends once, handing over the array that holds the text
  \<open>GET / HTTP/1.1\<close>, \<open>Host: example.com\<close>, \<open>Connection: close\<close>, each line
  ended by CR LF, then an empty line and the NUL, with the length 56 that leaves the
  NUL out; it acknowledges the received buffer once and asks for no close.
\<close>

theorem conn_scenario_request_response:
  assumes "esp_evt_get_type e1 = ESP_EVT_CONN_ACTIVE" and "esp_conn_get_from_evt e1 = Some c"
      and "esp_conn_send_res env1 = espOK"
    and "esp_evt_get_type e2 = ESP_EVT_CONN_DATA_SENT" and "esp_conn_get_from_evt e2 = Some c"
    and "esp_evt_get_type e3 = ESP_EVT_CONN_DATA_RECV" and "esp_conn_get_from_evt e3 = Some c"
      and "esp_evt_conn_data_recv_get_buff e3 = p" and "esp_pbuf_length_res env3 = 37"
    and "esp_evt_get_type e4 = ESP_EVT_CONN_CLOSED" and "esp_conn_get_from_evt e4 = Some c"
      and "\<not> esp_evt_conn_closed_is_forced e4"
  shows "trace (run_conn [(env1, e1), (env2, e2), (env3, e3), (env4, e4)] init_sys) =
          [Printf (''Connection active!'' @ crlf) [],
           Esp_conn_send c
             (map (\<lambda>c. of_nat (of_char c))
              (''GET / HTTP/1.1'' @ [CHR 0x0D, CHR 0x0A]
               @ ''Host: example.com'' @ [CHR 0x0D, CHR 0x0A]
               @ ''Connection: close'' @ [CHR 0x0D, CHR 0x0A]
               @ [CHR 0x0D, CHR 0x0A]) @ [0])
             56 None 0,
           Printf (''Sending request data to server...'' @ crlf) [],
           Printf (''Data sent successfully...waiting to receive data from remote side...'' @ crlf) [],
           Esp_conn_recved c p,
           Esp_pbuf_length p 1,
           Printf (''Received %d bytes on connection..'' @ crlf) [37],
           Printf (''Connection closed by remote side!'' @ crlf) []]
       \<and> filter is_send (trace (run_conn [(env1, e1), (env2, e2), (env3, e3), (env4, e4)] init_sys))
           = [Esp_conn_send c
                (map (\<lambda>c. of_nat (of_char c))
              (''GET / HTTP/1.1'' @ [CHR 0x0D, CHR 0x0A]
               @ ''Host: example.com'' @ [CHR 0x0D, CHR 0x0A]
               @ ''Connection: close'' @ [CHR 0x0D, CHR 0x0A]
               @ [CHR 0x0D, CHR 0x0A]) @ [0])
                56 None 0]
       \<and> map (take 56)
           (sent_payloads (trace (run_conn [(env1, e1), (env2, e2), (env3, e3), (env4, e4)] init_sys)))
           = [map (\<lambda>c. of_nat (of_char c))
                (''GET / HTTP/1.1'' @ [CHR 0x0D, CHR 0x0A]
                 @ ''Host: example.com'' @ [CHR 0x0D, CHR 0x0A]
                 @ ''Connection: close'' @ [CHR 0x0D, CHR 0x0A]
                 @ [CHR 0x0D, CHR 0x0A])]
       \<and> acks (trace (run_conn [(env1, e1), (env2, e2), (env3, e3), (env4, e4)] init_sys))
           = [(c, p)]
       \<and> filter is_close (trace (run_conn [(env1, e1), (env2, e2), (env3, e3), (env4, e4)] init_sys))
           = []"
proof -
  have tr: "trace (run_conn [(env1, e1), (env2, e2), (env3, e3), (env4, e4)] init_sys) =
          [Printf (''Connection active!'' @ crlf) [],
           Esp_conn_send c req_data_initializer 56 None 0,
           Printf (''Sending request data to server...'' @ crlf) [],
           Printf (''Data sent successfully...waiting to receive data from remote side...'' @ crlf) [],
           Esp_conn_recved c p,
           Esp_pbuf_length p 1,
           Printf (''Received %d bytes on connection..'' @ crlf) [37],
           Printf (''Connection closed by remote side!'' @ crlf) []]"
    using assms
    by (simp add: conn_cb_active conn_cb_data_sent conn_cb_data_recv conn_cb_closed
        send_length init_sys_def)
  show ?thesis
    unfolding tr req_data_initializer_bytes by (simp add: sent_payloads_def acks_def)
qed

theorem conn_scenario_request_response_witness:
  "esp_evt_get_type
     \<lparr>esp_evt_get_type = ESP_EVT_CONN_ACTIVE, esp_conn_get_from_evt = Some 1,
      esp_evt_conn_closed_is_forced = False, esp_evt_conn_data_recv_get_buff = 0\<rparr>
     = ESP_EVT_CONN_ACTIVE
   \<and> esp_conn_send_res \<lparr>esp_conn_send_res = espOK, esp_pbuf_length_res = 0\<rparr> = espOK
   \<and> esp_pbuf_length_res \<lparr>esp_conn_send_res = espOK, esp_pbuf_length_res = 37\<rparr> = 37
   \<and> \<not> esp_evt_conn_closed_is_forced
     \<lparr>esp_evt_get_type = ESP_EVT_CONN_CLOSED, esp_conn_get_from_evt = Some 1,
      esp_evt_conn_closed_is_forced = False, esp_evt_conn_data_recv_get_buff = 0\<rparr>
   \<and> trace (run_conn
       [(\<lparr>esp_conn_send_res = espOK, esp_pbuf_length_res = 0\<rparr>,
         \<lparr>esp_evt_get_type = ESP_EVT_CONN_ACTIVE, esp_conn_get_from_evt = Some 1,
          esp_evt_conn_closed_is_forced = False, esp_evt_conn_data_recv_get_buff = 0\<rparr>),
        (\<lparr>esp_conn_send_res = espOK, esp_pbuf_length_res = 0\<rparr>,
         \<lparr>esp_evt_get_type = ESP_EVT_CONN_DATA_SENT, esp_conn_get_from_evt = Some 1,
          esp_evt_conn_closed_is_forced = False, esp_evt_conn_data_recv_get_buff = 0\<rparr>),
        (\<lparr>esp_conn_send_res = espOK, esp_pbuf_length_res = 37\<rparr>,
         \<lparr>esp_evt_get_type = ESP_EVT_CONN_DATA_RECV, esp_conn_get_from_evt = Some 1,
          esp_evt_conn_closed_is_forced = False, esp_evt_conn_data_recv_get_buff = 9\<rparr>),
        (\<lparr>esp_conn_send_res = espOK, esp_pbuf_length_res = 0\<rparr>,
         \<lparr>esp_evt_get_type = ESP_EVT_CONN_CLOSED, esp_conn_get_from_evt = Some 1,
          esp_evt_conn_closed_is_forced = False, esp_evt_conn_data_recv_get_buff = 0\<rparr>)]
       init_sys) =
          [Printf (''Connection active!'' @ crlf) [],
           Esp_conn_send 1
             (map (\<lambda>c. of_nat (of_char c))
              (''GET / HTTP/1.1'' @ [CHR 0x0D, CHR 0x0A]
               @ ''Host: example.com'' @ [CHR 0x0D, CHR 0x0A]
               @ ''Connection: close'' @ [CHR 0x0D, CHR 0x0A]
               @ [CHR 0x0D, CHR 0x0A]) @ [0])
             56 None 0,
           Printf (''Sending request data to server...'' @ crlf) [],
           Printf (''Data sent successfully...waiting to receive data from remote side...'' @ crlf) [],
           Esp_conn_recved 1 9,
           Esp_pbuf_length 9 1,
           Printf (''Received %d bytes on connection..'' @ crlf) [37],
           Printf (''Connection closed by remote side!'' @ crlf) []]"
  using conn_scenario_request_response
     [of "\<lparr>esp_evt_get_type = ESP_EVT_CONN_ACTIVE, esp_conn_get_from_evt = Some 1,
          esp_evt_conn_closed_is_forced = False, esp_evt_conn_data_recv_get_buff = 0\<rparr>"
         1
         "\<lparr>esp_conn_send_res = espOK, esp_pbuf_length_res = 0\<rparr>"
         "\<lparr>esp_evt_get_type = ESP_EVT_CONN_DATA_SENT, esp_conn_get_from_evt = Some 1,
          esp_evt_conn_closed_is_forced = False, esp_evt_conn_data_recv_get_buff = 0\<rparr>"
         "\<lparr>esp_evt_get_type = ESP_EVT_CONN_DATA_RECV, esp_conn_get_from_evt = Some 1,
          esp_evt_conn_closed_is_forced = False, esp_evt_conn_data_recv_get_buff = 9\<rparr>"
         9
         "\<lparr>esp_conn_send_res = espOK, esp_pbuf_length_res = 37\<rparr>"
         "\<lparr>esp_evt_get_type = ESP_EVT_CONN_CLOSED, esp_conn_get_from_evt = Some 1,
          esp_evt_conn_closed_is_forced = False, esp_evt_conn_data_recv_get_buff = 0\<rparr>"
         "\<lparr>esp_conn_send_res = espOK, esp_pbuf_length_res = 0\<rparr>"
         "\<lparr>esp_conn_send_res = espOK, esp_pbuf_length_res = 0\<rparr>"]
  by simp

text \<open>
  C7, as the code has it. In any sequence of events, a connection-closed event that
  carries its handle is answered by one message, chosen by the forced flag, by no
  request to the transport, and by \<open>espOK\<close>, for either value of the flag; if no later
  connection-active or data-received event arrives for the handle, the rest of the
  sequence brings no send, close or acknowledge on it.
\<close>

theorem conn_closed_no_operation:
  assumes "esp_evt_get_type evt = ESP_EVT_CONN_CLOSED"
    and "esp_conn_get_from_evt evt = Some c"
    and "filter (is_active_or_recv_on c) post = []"
  shows "fst (conn_callback_func env evt (run_conn pre s)) = espOK
     \<and> (\<exists>T. trace (run_conn (pre @ (env, evt) # post) s) =
            trace (run_conn pre s) @
            [Printf ((if esp_evt_conn_closed_is_forced evt
                      then ''Connection closed by client!''
                      else ''Connection closed by remote side!'') @ crlf) []] @ T
          \<and> filter (is_operation_on c) T = [])"
proof -
  let ?s1 = "run_conn pre s"
  let ?msg = "Printf ((if esp_evt_conn_closed_is_forced evt
                      then ''Connection closed by client!''
                      else ''Connection closed by remote side!'') @ crlf) []"
  let ?s2 = "snd (conn_callback_func env evt ?s1)"
  have res: "fst (conn_callback_func env evt ?s1) = espOK"
    using assms(1,2) by (simp add: conn_cb_closed)
  have step: "trace ?s2 = trace ?s1 @ [?msg]"
    using assms(1,2) by (simp add: conn_cb_closed)
  from run_conn_idle [OF assms(3), of ?s2] obtain T where
    T: "trace (run_conn post ?s2) = trace ?s2 @ T" "filter (is_operation_on c) T = []"
    by blast
  have "trace (run_conn (pre @ (env, evt) # post) s) = trace ?s1 @ [?msg] @ T"
    using T(1) step by (simp add: run_conn_append)
  with T(2) res show ?thesis by blast
qed

theorem conn_closed_no_operation_witness:
  "esp_evt_get_type
     \<lparr>esp_evt_get_type = ESP_EVT_CONN_CLOSED, esp_conn_get_from_evt = Some 1,
      esp_evt_conn_closed_is_forced = True, esp_evt_conn_data_recv_get_buff = 0\<rparr>
     = ESP_EVT_CONN_CLOSED
   \<and> esp_conn_get_from_evt
     \<lparr>esp_evt_get_type = ESP_EVT_CONN_CLOSED, esp_conn_get_from_evt = Some 1,
      esp_evt_conn_closed_is_forced = True, esp_evt_conn_data_recv_get_buff = 0\<rparr> = Some 1
   \<and> filter (is_active_or_recv_on 1)
       [(\<lparr>esp_conn_send_res = espOK, esp_pbuf_length_res = 0\<rparr>,
         \<lparr>esp_evt_get_type = ESP_EVT_CONN_DATA_SENT, esp_conn_get_from_evt = Some 1,
          esp_evt_conn_closed_is_forced = False, esp_evt_conn_data_recv_get_buff = 0\<rparr>),
        (\<lparr>esp_conn_send_res = espOK, esp_pbuf_length_res = 37\<rparr>,
         \<lparr>esp_evt_get_type = ESP_EVT_CONN_DATA_RECV, esp_conn_get_from_evt = Some 2,
          esp_evt_conn_closed_is_forced = False, esp_evt_conn_data_recv_get_buff = 9\<rparr>)] = []
   \<and> fst (conn_callback_func \<lparr>esp_conn_send_res = espOK, esp_pbuf_length_res = 0\<rparr>
       \<lparr>esp_evt_get_type = ESP_EVT_CONN_CLOSED, esp_conn_get_from_evt = Some 1,
        esp_evt_conn_closed_is_forced = True, esp_evt_conn_data_recv_get_buff = 0\<rparr>
       (run_conn [] init_sys)) = espOK
   \<and> (\<exists>T. trace (run_conn
          ([] @ (\<lparr>esp_conn_send_res = espOK, esp_pbuf_length_res = 0\<rparr>,
            \<lparr>esp_evt_get_type = ESP_EVT_CONN_CLOSED, esp_conn_get_from_evt = Some 1,
             esp_evt_conn_closed_is_forced = True, esp_evt_conn_data_recv_get_buff = 0\<rparr>)
           # [(\<lparr>esp_conn_send_res = espOK, esp_pbuf_length_res = 0\<rparr>,
               \<lparr>esp_evt_get_type = ESP_EVT_CONN_DATA_SENT, esp_conn_get_from_evt = Some 1,
                esp_evt_conn_closed_is_forced = False, esp_evt_conn_data_recv_get_buff = 0\<rparr>),
              (\<lparr>esp_conn_send_res = espOK, esp_pbuf_length_res = 37\<rparr>,
               \<lparr>esp_evt_get_type = ESP_EVT_CONN_DATA_RECV, esp_conn_get_from_evt = Some 2,
                esp_evt_conn_closed_is_forced = False, esp_evt_conn_data_recv_get_buff = 9\<rparr>)])
          init_sys) =
        trace (run_conn [] init_sys) @
        [Printf (''Connection closed by client!'' @ crlf) []] @ T
      \<and> filter (is_operation_on 1) T = [])"
  using conn_closed_no_operation
     [of "\<lparr>esp_evt_get_type = ESP_EVT_CONN_CLOSED, esp_conn_get_from_evt = Some 1,
          esp_evt_conn_closed_is_forced = True, esp_evt_conn_data_recv_get_buff = 0\<rparr>"
         1
         "[(\<lparr>esp_conn_send_res = espOK, esp_pbuf_length_res = 0\<rparr>,
            \<lparr>esp_evt_get_type = ESP_EVT_CONN_DATA_SENT, esp_conn_get_from_evt = Some 1,
             esp_evt_conn_closed_is_forced = False, esp_evt_conn_data_recv_get_buff = 0\<rparr>),
           (\<lparr>esp_conn_send_res = espOK, esp_pbuf_length_res = 37\<rparr>,
            \<lparr>esp_evt_get_type = ESP_EVT_CONN_DATA_RECV, esp_conn_get_from_evt = Some 2,
             esp_evt_conn_closed_is_forced = False, esp_evt_conn_data_recv_get_buff = 9\<rparr>)]"
         "\<lparr>esp_conn_send_res = espOK, esp_pbuf_length_res = 0\<rparr>"
         "[]" init_sys]
  by simp

text \<open>
  C7, as the claim has it, fails twice. The callback keeps nothing about a handle
  between two runs, so a data-received event that follows the connection-closed event
  on the same handle is acknowledged on that handle. And a connection-closed event
  from which no handle can be taken is answered by \<open>espERR\<close> and no message.
\<close>

theorem conn_closed_counterexample:
  "trace (run_conn
     [(\<lparr>esp_conn_send_res = espOK, esp_pbuf_length_res = 0\<rparr>,
       \<lparr>esp_evt_get_type = ESP_EVT_CONN_CLOSED, esp_conn_get_from_evt = Some 1,
        esp_evt_conn_closed_is_forced = False, esp_evt_conn_data_recv_get_buff = 0\<rparr>),
      (\<lparr>esp_conn_send_res = espOK, esp_pbuf_length_res = 37\<rparr>,
       \<lparr>esp_evt_get_type = ESP_EVT_CONN_DATA_RECV, esp_conn_get_from_evt = Some 1,
        esp_evt_conn_closed_is_forced = False, esp_evt_conn_data_recv_get_buff = 9\<rparr>)]
     init_sys) =
   [Printf (''Connection closed by remote side!'' @ crlf) [],
    Esp_conn_recved 1 9,
    Esp_pbuf_length 9 1,
    Printf (''Received %d bytes on connection..'' @ crlf) [37]]
   \<and> conn_callback_func \<lparr>esp_conn_send_res = espOK, esp_pbuf_length_res = 0\<rparr>
       \<lparr>esp_evt_get_type = ESP_EVT_CONN_CLOSED, esp_conn_get_from_evt = None,
        esp_evt_conn_closed_is_forced = True, esp_evt_conn_data_recv_get_buff = 0\<rparr>
       init_sys = (espERR, init_sys)"
  by (simp add: conn_cb_closed conn_cb_data_recv conn_cb_no_handle init_sys_def)

text \<open>
  C8. No run of \<open>init_thread\<close>, \<open>conn_callback_func\<close> or \<open>esp_callback_func\<close>,
  in any order and with any answers of the library, changes the content of
  \<open>req_data\<close>; every send request is handed the same bytes, those of the initializer.
\<close>

theorem req_data_never_changes:
  "req_data (core_run ops s) = req_data s
   \<and> req_data (core_run ops init_sys) = req_data_initializer
   \<and> (\<exists>n. sent_payloads (trace (core_run ops init_sys)) = replicate n req_data_initializer)"
proof -
  have "req_data (core_run ops s) = req_data s"
    by (rule core_run_req_data)
  moreover have "req_data (core_run ops init_sys) = req_data_initializer"
    by (simp add: core_run_req_data init_sys_def)
  moreover have "\<exists>n. sent_payloads (trace (core_run ops init_sys)) = replicate n req_data_initializer"
    using core_run_payloads [of ops init_sys] by (simp add: init_sys_def sent_payloads_def)
  ultimately show ?thesis by blast
qed

text \<open>
  C3, as the code has it. When \<open>esp_init\<close> fails, \<open>init_thread\<close> prints the failure
  and goes on as it does after a success: it calls the station manager and, once that
  call is back, starts the connection, prints the outcome and ends the thread.
\<close>

theorem init_thread_continues_after_failed_init:
  assumes "esp_init_res env \<noteq> espOK"
  shows "trace (init_thread env s) = trace s @
     [Esp_init FN_esp_callback_func 1,
      Printf (''Cannot initialize ESP-AT Library'' @ crlf) [],
      Connect_to_preferred_access_point 1] @
     (if ap_returns env
      then [Esp_conn_start None ESP_CONN_TYPE_TCP ''example.com'' 80 None FN_conn_callback_func 0,
            Printf ((if esp_conn_start_res env = espOK
                     then ''Connection to example.com started...''
                     else ''Cannot start connection to example.com!'') @ crlf) [],
            OsThreadTerminate]
      else [])"
  using assms by (simp add: init_thread_trace)

theorem init_thread_continues_after_failed_init_witness:
  "esp_init_res \<lparr>esp_init_res = espERR, ap_returns = True, esp_conn_start_res = espERR\<rparr> \<noteq> espOK
   \<and> trace (init_thread \<lparr>esp_init_res = espERR, ap_returns = True, esp_conn_start_res = espERR\<rparr>
        init_sys) =
     [Esp_init FN_esp_callback_func 1,
      Printf (''Cannot initialize ESP-AT Library'' @ crlf) [],
      Connect_to_preferred_access_point 1,
      Esp_conn_start None ESP_CONN_TYPE_TCP ''example.com'' 80 None FN_conn_callback_func 0,
      Printf (''Cannot start connection to example.com!'' @ crlf) [],
      OsThreadTerminate]"
  using init_thread_continues_after_failed_init
     [of "\<lparr>esp_init_res = espERR, ap_returns = True, esp_conn_start_res = espERR\<rparr>" init_sys]
  by (simp add: init_sys_def)

text \<open>
  C3, as the claim has it, fails: with \<open>esp_init\<close> returning \<open>espERR\<close> the thread
  still calls the station manager and still starts the connection.
\<close>

theorem init_thread_failed_init_counterexample:
  "filter is_network_request
     (trace (init_thread \<lparr>esp_init_res = espERR, ap_returns = True, esp_conn_start_res = espOK\<rparr>
        init_sys)) =
     [Esp_init FN_esp_callback_func 1,
      Connect_to_preferred_access_point 1,
      Esp_conn_start None ESP_CONN_TYPE_TCP ''example.com'' 80 None FN_conn_callback_func 0]"
  by (simp add: init_thread_trace init_sys_def)

text \<open>
  C6, as the code has it. For an event of a category that the callback does not name,
  \<open>esp_callback_func\<close> does nothing and returns \<open>espOK\<close>; \<open>conn_callback_func\<close> does
  nothing either, and returns \<open>espOK\<close> when the event carries a connection handle and
  \<open>espERR\<close> when it carries none.
\<close>

theorem unrecognized_event_is_no_op:
  "(esp_evt_get_type evt \<notin> {ESP_EVT_AT_VERSION_NOT_SUPPORTED, ESP_EVT_INIT_FINISH,
                              ESP_EVT_RESET_FINISH, ESP_EVT_RESET}
      \<longrightarrow> esp_callback_func eenv evt s = (espOK, s))
   \<and> (esp_evt_get_type evt \<notin> {ESP_EVT_CONN_ACTIVE, ESP_EVT_CONN_CLOSED,
                                ESP_EVT_CONN_DATA_SENT, ESP_EVT_CONN_DATA_RECV}
      \<longrightarrow> conn_callback_func cenv evt s
            = (if esp_conn_get_from_evt evt = None then espERR else espOK, s))"
proof (intro conjI impI)
  assume "esp_evt_get_type evt \<notin> {ESP_EVT_AT_VERSION_NOT_SUPPORTED, ESP_EVT_INIT_FINISH,
                              ESP_EVT_RESET_FINISH, ESP_EVT_RESET}"
  then show "esp_callback_func eenv evt s = (espOK, s)"
    by (rule esp_cb_default)
next
  assume other: "esp_evt_get_type evt \<notin> {ESP_EVT_CONN_ACTIVE, ESP_EVT_CONN_CLOSED,
                                ESP_EVT_CONN_DATA_SENT, ESP_EVT_CONN_DATA_RECV}"
  show "conn_callback_func cenv evt s
            = (if esp_conn_get_from_evt evt = None then espERR else espOK, s)"
  proof (cases "esp_conn_get_from_evt evt")
    case None
    then show ?thesis by (simp add: conn_cb_no_handle)
  next
    case (Some conn)
    then show ?thesis using other by (simp add: conn_cb_default)
  qed
qed

theorem unrecognized_event_is_no_op_witness:
  "esp_evt_get_type
     \<lparr>esp_evt_get_type = ESP_EVT_OTHER 0, esp_conn_get_from_evt = Some 1,
      esp_evt_conn_closed_is_forced = False, esp_evt_conn_data_recv_get_buff = 0\<rparr>
     \<notin> {ESP_EVT_AT_VERSION_NOT_SUPPORTED, ESP_EVT_INIT_FINISH, ESP_EVT_RESET_FINISH,
         ESP_EVT_RESET}
   \<and> esp_callback_func
       \<lparr>min_at_fw_version = \<lparr>major = 2, minor = 0, patch = 0\<rparr>,
        current_at_fw_version = \<lparr>major = 1, minor = 5, patch = 0\<rparr>\<rparr>
       \<lparr>esp_evt_get_type = ESP_EVT_OTHER 0, esp_conn_get_from_evt = Some 1,
        esp_evt_conn_closed_is_forced = False, esp_evt_conn_data_recv_get_buff = 0\<rparr>
       init_sys = (espOK, init_sys)
   \<and> esp_evt_get_type
     \<lparr>esp_evt_get_type = ESP_EVT_OTHER 0, esp_conn_get_from_evt = Some 1,
      esp_evt_conn_closed_is_forced = False, esp_evt_conn_data_recv_get_buff = 0\<rparr>
     \<notin> {ESP_EVT_CONN_ACTIVE, ESP_EVT_CONN_CLOSED, ESP_EVT_CONN_DATA_SENT,
         ESP_EVT_CONN_DATA_RECV}
   \<and> conn_callback_func \<lparr>esp_conn_send_res = espOK, esp_pbuf_length_res = 0\<rparr>
       \<lparr>esp_evt_get_type = ESP_EVT_OTHER 0, esp_conn_get_from_evt = Some 1,
        esp_evt_conn_closed_is_forced = False, esp_evt_conn_data_recv_get_buff = 0\<rparr>
       init_sys = (espOK, init_sys)"
  using unrecognized_event_is_no_op
     [of "\<lparr>esp_evt_get_type = ESP_EVT_OTHER 0, esp_conn_get_from_evt = Some 1,
          esp_evt_conn_closed_is_forced = False, esp_evt_conn_data_recv_get_buff = 0\<rparr>"
         "\<lparr>min_at_fw_version = \<lparr>major = 2, minor = 0, patch = 0\<rparr>,
          current_at_fw_version = \<lparr>major = 1, minor = 5, patch = 0\<rparr>\<rparr>"
         init_sys
         "\<lparr>esp_conn_send_res = espOK, esp_pbuf_length_res = 0\<rparr>"]
  by simp

text \<open>
  C6, as the claim has it, fails for the connection callback: an event of a category
  it does not name, from which no handle can be taken, makes it return \<open>espERR\<close>.
\<close>

theorem unrecognized_event_counterexample:
  "conn_callback_func \<lparr>esp_conn_send_res = espOK, esp_pbuf_length_res = 0\<rparr>
     \<lparr>esp_evt_get_type = ESP_EVT_OTHER 0, esp_conn_get_from_evt = None,
      esp_evt_conn_closed_is_forced = False, esp_evt_conn_data_recv_get_buff = 0\<rparr>
     init_sys = (espERR, init_sys)"
  by (simp add: conn_cb_no_handle)

text \<open>
  C2, as the code has it. A data-received event that carries a connection handle is
  answered by one acknowledge request, for that handle and the event's buffer, made
  before anything else; over any sequence of events the acknowledged buffers are, one
  for one and in order, the buffers that arrived with a handle.
\<close>

theorem recv_acknowledged_once:
  "(esp_evt_get_type evt = ESP_EVT_CONN_DATA_RECV \<and> esp_conn_get_from_evt evt = Some conn
      \<longrightarrow> conn_callback_func env evt s =
           (espOK, s\<lparr>trace := trace s @
              [Esp_conn_recved conn (esp_evt_conn_data_recv_get_buff evt),
               Esp_pbuf_length (esp_evt_conn_data_recv_get_buff evt) 1,
               Printf (''Received %d bytes on connection..'' @ crlf)
                 [sint (esp_pbuf_length_res env)]]\<rparr>))
   \<and> acks (trace (run_conn steps s)) = acks (trace s) @ received steps
   \<and> acks (trace (run_conn steps init_sys)) = received steps"
proof -
  have "acks (trace init_sys) = []"
    by (simp add: init_sys_def acks_def)
  then have "acks (trace (run_conn steps init_sys)) = received steps"
    by (simp add: run_conn_acks)
  then show ?thesis
    by (simp add: conn_cb_data_recv run_conn_acks)
qed

theorem recv_acknowledged_once_witness:
  "esp_evt_get_type
     \<lparr>esp_evt_get_type = ESP_EVT_CONN_DATA_RECV, esp_conn_get_from_evt = Some 1,
      esp_evt_conn_closed_is_forced = False, esp_evt_conn_data_recv_get_buff = 9\<rparr>
     = ESP_EVT_CONN_DATA_RECV
   \<and> esp_conn_get_from_evt
     \<lparr>esp_evt_get_type = ESP_EVT_CONN_DATA_RECV, esp_conn_get_from_evt = Some 1,
      esp_evt_conn_closed_is_forced = False, esp_evt_conn_data_recv_get_buff = 9\<rparr> = Some 1
   \<and> conn_callback_func \<lparr>esp_conn_send_res = espOK, esp_pbuf_length_res = 37\<rparr>
       \<lparr>esp_evt_get_type = ESP_EVT_CONN_DATA_RECV, esp_conn_get_from_evt = Some 1,
        esp_evt_conn_closed_is_forced = False, esp_evt_conn_data_recv_get_buff = 9\<rparr>
       init_sys
     = (espOK, init_sys\<lparr>trace :=
          [Esp_conn_recved 1 9, Esp_pbuf_length 9 1,
           Printf (''Received %d bytes on connection..'' @ crlf) [37]]\<rparr>)"
  using recv_acknowledged_once
     [of "\<lparr>esp_evt_get_type = ESP_EVT_CONN_DATA_RECV, esp_conn_get_from_evt = Some 1,
          esp_evt_conn_closed_is_forced = False, esp_evt_conn_data_recv_get_buff = 9\<rparr>"
         1 "\<lparr>esp_conn_send_res = espOK, esp_pbuf_length_res = 37\<rparr>" init_sys "[]"]
  by (simp add: init_sys_def)

text \<open>
  C2, as the claim has it, fails: a data-received event from which no handle can be
  taken is not acknowledged; the callback returns \<open>espERR\<close> and has made no call.
\<close>

theorem recv_not_acknowledged_counterexample:
  "conn_callback_func \<lparr>esp_conn_send_res = espOK, esp_pbuf_length_res = 37\<rparr>
     \<lparr>esp_evt_get_type = ESP_EVT_CONN_DATA_RECV, esp_conn_get_from_evt = None,
      esp_evt_conn_closed_is_forced = False, esp_evt_conn_data_recv_get_buff = 9\<rparr>
     init_sys = (espERR, init_sys)
   \<and> acks (trace (snd (conn_callback_func
         \<lparr>esp_conn_send_res = espOK, esp_pbuf_length_res = 37\<rparr>
         \<lparr>esp_evt_get_type = ESP_EVT_CONN_DATA_RECV, esp_conn_get_from_evt = None,
          esp_evt_conn_closed_is_forced = False, esp_evt_conn_data_recv_get_buff = 9\<rparr>
         init_sys))) = []"
  by (simp add: conn_cb_no_handle init_sys_def acks_def)

text \<open>
  C1, as the code has it. In any sequence of events, a connection-active event whose
  send request is rejected is answered by that one send request and then one close
  request on the same handle; if no later connection-active event arrives for the
  handle, the rest of the sequence brings no further send and no further close on it.
\<close>

theorem send_rejected_closes_once:
  assumes "esp_evt_get_type evt = ESP_EVT_CONN_ACTIVE"
    and "esp_conn_get_from_evt evt = Some c"
    and "esp_conn_send_res env \<noteq> espOK"
    and "filter (is_active_on c) post = []"
  shows "\<exists>T. trace (run_conn (pre @ (env, evt) # post) s) =
            trace (run_conn pre s) @
            [Printf (''Connection active!'' @ crlf) [],
             Esp_conn_send c (req_data s) (sizeof_req_data - 1) None 0,
             Printf (''Cannot send request data to server. Closing connection manually...'' @ crlf) [],
             Esp_conn_close c 0] @ T
          \<and> filter (is_send_on c) T = [] \<and> filter (is_close_on c) T = []"
proof -
  let ?s1 = "run_conn pre s"
  let ?acts = "[Printf (''Connection active!'' @ crlf) [],
             Esp_conn_send c (req_data s) (sizeof_req_data - 1) None 0,
             Printf (''Cannot send request data to server. Closing connection manually...'' @ crlf) [],
             Esp_conn_close c 0]"
  let ?s2 = "snd (conn_callback_func env evt ?s1)"
  have step: "trace ?s2 = trace ?s1 @ ?acts"
    using assms(1-3) by (simp add: conn_cb_active run_conn_req_data)
  from run_conn_quiet [OF assms(4), of ?s2] obtain T where
    T: "trace (run_conn post ?s2) = trace ?s2 @ T"
       "filter (is_send_on c) T = []" "filter (is_close_on c) T = []"
    by blast
  have "trace (run_conn (pre @ (env, evt) # post) s) = trace ?s1 @ ?acts @ T"
    using T(1) step by (simp add: run_conn_append)
  with T(2,3) show ?thesis by blast
qed

theorem send_rejected_closes_once_witness:
  "esp_evt_get_type
     \<lparr>esp_evt_get_type = ESP_EVT_CONN_ACTIVE, esp_conn_get_from_evt = Some 1,
      esp_evt_conn_closed_is_forced = False, esp_evt_conn_data_recv_get_buff = 0\<rparr>
     = ESP_EVT_CONN_ACTIVE
   \<and> esp_conn_get_from_evt
     \<lparr>esp_evt_get_type = ESP_EVT_CONN_ACTIVE, esp_conn_get_from_evt = Some 1,
      esp_evt_conn_closed_is_forced = False, esp_evt_conn_data_recv_get_buff = 0\<rparr> = Some 1
   \<and> esp_conn_send_res \<lparr>esp_conn_send_res = espERR, esp_pbuf_length_res = 0\<rparr> \<noteq> espOK
   \<and> filter (is_active_on 1)
       [(\<lparr>esp_conn_send_res = espOK, esp_pbuf_length_res = 0\<rparr>,
         \<lparr>esp_evt_get_type = ESP_EVT_CONN_CLOSED, esp_conn_get_from_evt = Some 1,
          esp_evt_conn_closed_is_forced = True, esp_evt_conn_data_recv_get_buff = 0\<rparr>)] = []
   \<and> (\<exists>T. trace (run_conn
          ([] @ (\<lparr>esp_conn_send_res = espERR, esp_pbuf_length_res = 0\<rparr>,
            \<lparr>esp_evt_get_type = ESP_EVT_CONN_ACTIVE, esp_conn_get_from_evt = Some 1,
             esp_evt_conn_closed_is_forced = False, esp_evt_conn_data_recv_get_buff = 0\<rparr>)
           # [(\<lparr>esp_conn_send_res = espOK, esp_pbuf_length_res = 0\<rparr>,
               \<lparr>esp_evt_get_type = ESP_EVT_CONN_CLOSED, esp_conn_get_from_evt = Some 1,
                esp_evt_conn_closed_is_forced = True, esp_evt_conn_data_recv_get_buff = 0\<rparr>)])
          init_sys) =
        trace (run_conn [] init_sys) @
        [Printf (''Connection active!'' @ crlf) [],
         Esp_conn_send 1 (req_data init_sys) (sizeof_req_data - 1) None 0,
         Printf (''Cannot send request data to server. Closing connection manually...'' @ crlf) [],
         Esp_conn_close 1 0] @ T
      \<and> filter (is_send_on 1) T = [] \<and> filter (is_close_on 1) T = [])"
  using send_rejected_closes_once
     [of "\<lparr>esp_evt_get_type = ESP_EVT_CONN_ACTIVE, esp_conn_get_from_evt = Some 1,
          esp_evt_conn_closed_is_forced = False, esp_evt_conn_data_recv_get_buff = 0\<rparr>"
         1
         "\<lparr>esp_conn_send_res = espERR, esp_pbuf_length_res = 0\<rparr>"
         "[(\<lparr>esp_conn_send_res = espOK, esp_pbuf_length_res = 0\<rparr>,
            \<lparr>esp_evt_get_type = ESP_EVT_CONN_CLOSED, esp_conn_get_from_evt = Some 1,
             esp_evt_conn_closed_is_forced = True, esp_evt_conn_data_recv_get_buff = 0\<rparr>)]"
         "[]" init_sys]
  by simp

text \<open>
  C1, as the claim has it, fails: the callback keeps nothing about a handle between
  two runs. After a rejected send and the close that follows it, a second
  connection-active event for the same handle is answered by a second send request.
\<close>

theorem send_rejected_counterexample:
  "trace (run_conn
     [(\<lparr>esp_conn_send_res = espERR, esp_pbuf_length_res = 0\<rparr>,
       \<lparr>esp_evt_get_type = ESP_EVT_CONN_ACTIVE, esp_conn_get_from_evt = Some 1,
        esp_evt_conn_closed_is_forced = False, esp_evt_conn_data_recv_get_buff = 0\<rparr>),
      (\<lparr>esp_conn_send_res = espOK, esp_pbuf_length_res = 0\<rparr>,
       \<lparr>esp_evt_get_type = ESP_EVT_CONN_CLOSED, esp_conn_get_from_evt = Some 1,
        esp_evt_conn_closed_is_forced = True, esp_evt_conn_data_recv_get_buff = 0\<rparr>),
      (\<lparr>esp_conn_send_res = espOK, esp_pbuf_length_res = 0\<rparr>,
       \<lparr>esp_evt_get_type = ESP_EVT_CONN_ACTIVE, esp_conn_get_from_evt = Some 1,
        esp_evt_conn_closed_is_forced = False, esp_evt_conn_data_recv_get_buff = 0\<rparr>)]
     init_sys) =
   [Printf (''Connection active!'' @ crlf) [],
    Esp_conn_send 1 req_data_initializer 56 None 0,
    Printf (''Cannot send request data to server. Closing connection manually...'' @ crlf) [],
    Esp_conn_close 1 0,
    Printf (''Connection closed by client!'' @ crlf) [],
    Printf (''Connection active!'' @ crlf) [],
    Esp_conn_send 1 req_data_initializer 56 None 0,
    Printf (''Sending request data to server...'' @ crlf) []]"
  by (simp add: conn_cb_active conn_cb_closed send_length init_sys_def)

end
